theory Spec2Isabelle
  imports Complex_Main "HOL-Library.Sublist" "HOL-Library.Log_Nat"
begin

section \<open>Numbers\<close>

text \<open>
  The TypeScript sources compute with the JavaScript type \<open>number\<close>, the IEEE 754 binary64
  format. A value of the model is a finite number, given by the rational it denotes, one of
  the two infinities, or \<open>NaN\<close>. Negative zero is not told apart from zero: the sources
  never divide by a zero and nothing they print or compare depends on its sign.
\<close>

datatype double = Fin rat | PInf | NInf | NaN

text \<open>
  The exponent of a non-zero rational: \<open>2 ^ expo x \<le> \<bar>x\<bar> < 2 ^ (expo x + 1)\<close>. It is
  read off the bit lengths of the numerator and the denominator, which fix it up to one.
\<close>

definition expo :: "rat \<Rightarrow> int" where
  "expo x =
     (let (a, b) = quotient_of \<bar>x\<bar>;
          e = bitlen a - bitlen b
      in if power_int 2 e \<le> \<bar>x\<bar> then e else e - 1)"

text \<open>The nearest integer, the even one on a tie.\<close>

definition round_even :: "rat \<Rightarrow> int" where
  "round_even m =
     (let n = \<lfloor>m\<rfloor>; r = m - of_int n
      in if r < 1 / 2 then n else if 1 / 2 < r then n + 1 else if even n then n else n + 1)"

text \<open>
  Rounding to nearest, ties to even, with 53 significant bits and the least exponent of
  binary64 (the spacing is never below \<open>2 ^ - 1074\<close>), before the range is checked.
\<close>

definition fl :: "rat \<Rightarrow> rat" where
  "fl x =
     (if x = 0 then 0
      else (let e = max (expo x - 52) (- 1074)
            in of_int (round_even (x / power_int 2 e)) * power_int 2 e))"

text \<open>
  The binary64 value of an exact result: the rounded value, or an infinity when the rounded
  value reaches \<open>2 ^ 1024\<close>. \<open>rnd\<close> of a decimal is also what the literal denotes.
\<close>

definition rnd :: "rat \<Rightarrow> double" where
  "rnd x = (let y = fl x in if 1024 \<le> expo y then (if 0 < x then PInf else NInf) else Fin y)"

definition signo :: "double \<Rightarrow> int" where
  "signo d = (case d of Fin x \<Rightarrow> (if 0 < x then 1 else if x < 0 then - 1 else 0)
                      | PInf \<Rightarrow> 1 | NInf \<Rightarrow> - 1 | NaN \<Rightarrow> 0)"

definition dneg :: "double \<Rightarrow> double" where
  "dneg d = (case d of Fin x \<Rightarrow> Fin (- x) | PInf \<Rightarrow> NInf | NInf \<Rightarrow> PInf | NaN \<Rightarrow> NaN)"

text \<open>\<open>a + b\<close>, \<open>a - b\<close>, \<open>a * b\<close> and \<open>a / b\<close>\<close>

fun dadd :: "double \<Rightarrow> double \<Rightarrow> double" where
  "dadd NaN b = NaN"
| "dadd a NaN = NaN"
| "dadd (Fin x) (Fin y) = rnd (x + y)"
| "dadd PInf NInf = NaN"
| "dadd NInf PInf = NaN"
| "dadd PInf b = PInf"
| "dadd NInf b = NInf"
| "dadd (Fin x) b = b"

definition dsub :: "double \<Rightarrow> double \<Rightarrow> double" where
  "dsub a b = dadd a (dneg b)"

fun dmul :: "double \<Rightarrow> double \<Rightarrow> double" where
  "dmul NaN b = NaN"
| "dmul a NaN = NaN"
| "dmul (Fin x) (Fin y) = rnd (x * y)"
| "dmul a b = (if signo a * signo b = 0 then NaN else if 0 < signo a * signo b then PInf else NInf)"

fun ddiv :: "double \<Rightarrow> double \<Rightarrow> double" where
  "ddiv NaN b = NaN"
| "ddiv a NaN = NaN"
| "ddiv (Fin x) (Fin y) =
     (if y \<noteq> 0 then rnd (x / y)
      else if x = 0 then NaN else if 0 < x then PInf else NInf)"
| "ddiv (Fin x) b = Fin 0"
| "ddiv a (Fin y) = (if (0 < signo a) = (0 \<le> y) then PInf else NInf)"
| "ddiv a b = NaN"

text \<open>\<open>a < b\<close>; a comparison with \<open>NaN\<close> is false.\<close>

fun dless :: "double \<Rightarrow> double \<Rightarrow> bool" where
  "dless NaN b = False"
| "dless a NaN = False"
| "dless (Fin x) (Fin y) = (x < y)"
| "dless a PInf = (a \<noteq> PInf)"
| "dless NInf b = (b \<noteq> NInf)"
| "dless a b = False"

definition dabs :: "double \<Rightarrow> double" where
  "dabs d = (case d of Fin x \<Rightarrow> Fin \<bar>x\<bar> | PInf \<Rightarrow> PInf | NInf \<Rightarrow> PInf | NaN \<Rightarrow> NaN)"

text \<open>
  \<open>Math.round\<close> returns the integer nearest to its argument and resolves a tie towards
  plus infinity, which is \<open>\<lfloor>x + 1/2\<rfloor>\<close>; the result is exact. An infinity and \<open>NaN\<close> are
  returned as they are.
\<close>

definition Math_round :: "rat \<Rightarrow> rat" where
  "Math_round x = of_int \<lfloor>x + 1 / 2\<rfloor>"

definition Math_round_d :: "double \<Rightarrow> double" where
  "Math_round_d d = (case d of Fin x \<Rightarrow> Fin (Math_round x) | _ \<Rightarrow> d)"

text \<open>
  \<open>x.toFixed(d)\<close> prints the decimal with \<open>d\<close> fraction digits nearest to \<open>x\<close>, the larger
  one in magnitude on a tie, with the sign of \<open>x\<close>. The model keeps the number that is
  printed; an infinity and \<open>NaN\<close> are printed by name.
\<close>

definition toFixed :: "nat \<Rightarrow> rat \<Rightarrow> rat" where
  "toFixed d x =
     (if x < 0 then - (of_int \<lfloor>(- x) * 10 ^ d + 1 / 2\<rfloor> / 10 ^ d)
      else of_int \<lfloor>x * 10 ^ d + 1 / 2\<rfloor> / 10 ^ d)"

datatype texto_numero = Decimal rat | NoFinito double

definition toFixed_d :: "nat \<Rightarrow> double \<Rightarrow> texto_numero" where
  "toFixed_d d x = (case x of Fin r \<Rightarrow> Decimal (toFixed d r) | _ \<Rightarrow> NoFinito x)"



text \<open>\<open>d\<close> is a finite number within \<open>tol\<close> of \<open>x\<close>.\<close>

definition cerca :: "rat \<Rightarrow> rat \<Rightarrow> double \<Rightarrow> bool" where
  "cerca tol x d = (case d of Fin y \<Rightarrow> \<bar>y - x\<bar> \<le> tol | _ \<Rightarrow> False)"

text \<open>The rational a finite number denotes.\<close>

definition valor :: "double \<Rightarrow> rat" where
  "valor d = (case d of Fin x \<Rightarrow> x | _ \<Rightarrow> 0)"

section \<open>Calculation engine (calc-agent.ts)\<close>

subsection \<open>Global constants (hc-schemas.ts)\<close>

definition PCA_CH4 :: double where
  "PCA_CH4 = rnd (279 / 10)"

definition PCA_N2O :: double where
  "PCA_N2O = Fin 273"

subsection \<open>Single-record formulas\<close>

record FactorEmision =
  co2_kg_ud :: double
  ch4_g_ud :: double
  n2o_g_ud :: double

record EmisionesCombustible =
  co2_kg :: double
  ch4_g :: double
  n2o_g :: double
  total_kg_co2e :: double

definition calcularEmisionesCombustible :: "double \<Rightarrow> FactorEmision \<Rightarrow> EmisionesCombustible" where
  "calcularEmisionesCombustible cantidad fe =
     (let co2 = dmul cantidad (co2_kg_ud fe);
          ch4 = dmul cantidad (ch4_g_ud fe);
          n2o = dmul cantidad (n2o_g_ud fe);
          total = dadd (dadd co2 (dmul (ddiv ch4 (Fin 1000)) PCA_CH4))
                       (dmul (ddiv n2o (Fin 1000)) PCA_N2O)
      in \<lparr> co2_kg = ddiv (Math_round_d (dmul co2 (Fin 1000))) (Fin 1000),
           ch4_g = ddiv (Math_round_d (dmul ch4 (Fin 1000))) (Fin 1000),
           n2o_g = ddiv (Math_round_d (dmul n2o (Fin 1000))) (Fin 1000),
           total_kg_co2e = ddiv (Math_round_d (dmul total (Fin 1000))) (Fin 1000) \<rparr>)"


definition calcularEmisionesElectricidad :: "double \<Rightarrow> double \<Rightarrow> bool \<Rightarrow> double" where
  "calcularEmisionesElectricidad kwh_consumidos factor_mix_kg_co2_kwh tiene_gdo =
     (if tiene_gdo then Fin 0
      else ddiv (Math_round_d (dmul (dmul kwh_consumidos factor_mix_kg_co2_kwh) (Fin 1000)))
             (Fin 1000))"

subsection \<open>Totals per category\<close>

text \<open>
  The aggregation reads one number of every activity record: its cached emission total.
  The records keep that field under the name the source gives it.
\<close>

record RegistroCombustion =
  emisiones_totales_kg_co2e :: double

record RegistroCO2e =
  emisiones_kg_co2e :: double

record RegistroElectricidad =
  emisiones_kg_co2 :: double

record Scope1InstalacionesFijas =
  no_sujetas_ley_1_2005 :: "RegistroCombustion list"
  sujetas_ley_1_2005 :: "RegistroCombustion list"

record Scope1Vehiculos =
  transporte_carretera_A1_combustible :: "RegistroCombustion list"
  transporte_carretera_A2_distancia_km :: "RegistroCombustion list"
  transporte_ferroviario_maritimo_aereo :: "RegistroCombustion list"
  maquinaria_movil :: "RegistroCombustion list"

record Scope1Fugitivas =
  climatizacion_refrigeracion :: "RegistroCO2e list"
  otros :: "RegistroCO2e list"

record ProcesoData =
  emisiones :: "RegistroCO2e list"

record Scope2Electricidad =
  electricidad_edificios :: "RegistroElectricidad list"
  electricidad_vehiculos :: "RegistroElectricidad list"
  calor_vapor_frio :: "RegistroElectricidad list"

record Organizacion =
  num_empleados :: double
  superficie_m2 :: double
  indice_actividad_valor :: "double option"

text \<open>\<open>xs.reduce((sum, r) => sum + f(r), 0)\<close>\<close>

definition reduce_sum :: "('a \<Rightarrow> double) \<Rightarrow> 'a list \<Rightarrow> double" where
  "reduce_sum f xs = foldl (\<lambda>sum r. dadd sum (f r)) (Fin 0) xs"

record FijasKg =
  no_ley_kg :: double
  ley_kg :: double

definition calcularAlcance1InstalacionesFijas :: "Scope1InstalacionesFijas option \<Rightarrow> FijasKg" where
  "calcularAlcance1InstalacionesFijas data =
     (case data of
        None \<Rightarrow> \<lparr> no_ley_kg = Fin 0, ley_kg = Fin 0 \<rparr>
      | Some d \<Rightarrow>
          \<lparr> no_ley_kg = reduce_sum emisiones_totales_kg_co2e (no_sujetas_ley_1_2005 d),
            ley_kg = reduce_sum emisiones_totales_kg_co2e (sujetas_ley_1_2005 d) \<rparr>)"

record VehiculosKg =
  carretera_kg :: double
  no_carretera_kg :: double
  maquinaria_kg :: double

definition calcularAlcance1Vehiculos :: "Scope1Vehiculos option \<Rightarrow> VehiculosKg" where
  "calcularAlcance1Vehiculos data =
     (case data of
        None \<Rightarrow> \<lparr> carretera_kg = Fin 0, no_carretera_kg = Fin 0, maquinaria_kg = Fin 0 \<rparr>
      | Some d \<Rightarrow>
          (let carretera_a1 = reduce_sum emisiones_totales_kg_co2e (transporte_carretera_A1_combustible d);
               carretera_a2 = reduce_sum emisiones_totales_kg_co2e (transporte_carretera_A2_distancia_km d);
               no_carretera = reduce_sum emisiones_totales_kg_co2e (transporte_ferroviario_maritimo_aereo d);
               maquinaria = reduce_sum emisiones_totales_kg_co2e (maquinaria_movil d)
           in \<lparr> carretera_kg = dadd carretera_a1 carretera_a2,
                no_carretera_kg = no_carretera,
                maquinaria_kg = maquinaria \<rparr>))"

definition calcularAlcance1Fugitivas :: "Scope1Fugitivas option \<Rightarrow> double" where
  "calcularAlcance1Fugitivas data =
     (case data of
        None \<Rightarrow> Fin 0
      | Some d \<Rightarrow>
          (let climatizacion = reduce_sum emisiones_kg_co2e (climatizacion_refrigeracion d);
               otros_kg = reduce_sum emisiones_kg_co2e (otros d)
           in dadd climatizacion otros_kg))"

definition calcularAlcance1Proceso :: "ProcesoData option \<Rightarrow> double" where
  "calcularAlcance1Proceso data =
     (case data of None \<Rightarrow> Fin 0 | Some d \<Rightarrow> reduce_sum emisiones_kg_co2e (emisiones d))"

record Alcance2Kg =
  edificios_kg :: double
  vehiculos_kg :: double
  calor_vapor_frio_kg :: double

definition calcularAlcance2 :: "Scope2Electricidad option \<Rightarrow> Alcance2Kg" where
  "calcularAlcance2 data =
     (case data of
        None \<Rightarrow> \<lparr> edificios_kg = Fin 0, vehiculos_kg = Fin 0, calor_vapor_frio_kg = Fin 0 \<rparr>
      | Some d \<Rightarrow>
          \<lparr> edificios_kg = reduce_sum emisiones_kg_co2 (electricidad_edificios d),
            vehiculos_kg = reduce_sum emisiones_kg_co2 (electricidad_vehiculos d),
            calor_vapor_frio_kg = reduce_sum emisiones_kg_co2 (calor_vapor_frio d) \<rparr>)"

subsection \<open>Results (hc-schemas.ts) and the JSON store the calculation reads and writes\<close>

record Alcance1 =
  instalaciones_fijas_no_ley :: double
  instalaciones_fijas_ley :: double
  transporte_carretera :: double
  transporte_ferroviario_maritimo_aereo :: double
  maquinaria :: double
  fugitivas :: double
  proceso :: double
  total_t_co2e :: double

record Alcance2 =
  electricidad_edificios :: double
  electricidad_vehiculos :: double
  calor_vapor_frio :: double
  total_t_co2e :: double

record Ratios =
  t_co2e_por_empleado :: double
  t_co2e_por_m2 :: double
  t_co2e_por_indice_actividad :: double

record Resultados =
  anio_calculo :: int
  alcance_1 :: Alcance1
  alcance_2 :: Alcance2
  total_alcance_1_2_t_co2e :: double
  ratios :: Ratios

text \<open>
  json-store.ts keeps one file per organization, year and kind of data; a file that is missing
  or unreadable loads as \<open>null\<close>. Writing a file is taken to succeed.
\<close>

record json_store =
  organization :: "string \<times> int \<Rightarrow> Organizacion option"
  scope1_instalaciones_fijas :: "string \<times> int \<Rightarrow> Scope1InstalacionesFijas option"
  scope1_vehiculos :: "string \<times> int \<Rightarrow> Scope1Vehiculos option"
  scope1_fugitivas :: "string \<times> int \<Rightarrow> Scope1Fugitivas option"
  scope1_proceso :: "string \<times> int \<Rightarrow> ProcesoData option"
  scope2_electricidad :: "string \<times> int \<Rightarrow> Scope2Electricidad option"
  results :: "string \<times> int \<Rightarrow> Resultados option"

definition saveResults :: "string \<Rightarrow> int \<Rightarrow> Resultados \<Rightarrow> json_store \<Rightarrow> json_store" where
  "saveResults orgId anio data st = st \<lparr> results := (results st)((orgId, anio) \<mapsto> data) \<rparr>"

datatype scope = Scope1 | Scope2 | Both

record RecalculateParams =
  orgId :: string
  anio :: int
  scope :: "scope option"

text \<open>
  \<open>v || 1\<close> for a number that may be missing: \<open>undefined\<close>, \<open>0\<close> and \<open>NaN\<close> are falsy.
\<close>

definition or_1 :: "double option \<Rightarrow> double" where
  "or_1 v = (case v of None \<Rightarrow> Fin 1 | Some x \<Rightarrow> (if x = Fin 0 \<or> x = NaN then Fin 1 else x))"

text \<open>
  \<open>CalcAgent.recalculate\<close>: load everything of the organization and year, total it, build the
  results, save them and return them. The \<open>scope\<close> parameter is read and not used.
\<close>

definition recalculate :: "RecalculateParams \<Rightarrow> json_store \<Rightarrow> Resultados \<times> json_store" where
  "recalculate params st =
     (let k = (orgId params, anio params);
          org = organization st k;
          scope1Fijas = scope1_instalaciones_fijas st k;
          scope1Vehiculos = scope1_vehiculos st k;
          scope1Fugitivas = scope1_fugitivas st k;
          scope1Proceso = scope1_proceso st k;
          scope2Data = scope2_electricidad st k;
          fijas = calcularAlcance1InstalacionesFijas scope1Fijas;
          vehiculos = calcularAlcance1Vehiculos scope1Vehiculos;
          fugitivas_kg = calcularAlcance1Fugitivas scope1Fugitivas;
          proceso_kg = calcularAlcance1Proceso scope1Proceso;
          total_alcance1_kg =
            dadd (dadd (dadd (dadd (dadd (dadd (no_ley_kg fijas) (ley_kg fijas))
              (carretera_kg vehiculos)) (no_carretera_kg vehiculos))
              (maquinaria_kg vehiculos)) fugitivas_kg) proceso_kg;
          alcance2 = calcularAlcance2 scope2Data;
          total_alcance2_kg =
            dadd (dadd (edificios_kg alcance2) (vehiculos_kg alcance2))
              (calor_vapor_frio_kg alcance2);
          total_t = ddiv (dadd total_alcance1_kg total_alcance2_kg) (Fin 1000);
          numEmpleados = or_1 (map_option num_empleados org);
          superficieM2 = or_1 (map_option superficie_m2 org);
          indiceActividad = or_1 (Option.bind org indice_actividad_valor);
          resultados =
            \<lparr> anio_calculo = anio params,
           alcance_1 =
             \<lparr> instalaciones_fijas_no_ley = ddiv (Math_round_d (dmul (ddiv (no_ley_kg fijas) (Fin 1000)) (Fin 1000))) (Fin 1000),
               instalaciones_fijas_ley = ddiv (Math_round_d (dmul (ddiv (ley_kg fijas) (Fin 1000)) (Fin 1000))) (Fin 1000),
               transporte_carretera = ddiv (Math_round_d (dmul (ddiv (carretera_kg vehiculos) (Fin 1000)) (Fin 1000))) (Fin 1000),
               transporte_ferroviario_maritimo_aereo =
                 ddiv (Math_round_d (dmul (ddiv (no_carretera_kg vehiculos) (Fin 1000)) (Fin 1000))) (Fin 1000),
               maquinaria = ddiv (Math_round_d (dmul (ddiv (maquinaria_kg vehiculos) (Fin 1000)) (Fin 1000))) (Fin 1000),
               fugitivas = ddiv (Math_round_d (dmul (ddiv (fugitivas_kg) (Fin 1000)) (Fin 1000))) (Fin 1000),
               proceso = ddiv (Math_round_d (dmul (ddiv (proceso_kg) (Fin 1000)) (Fin 1000))) (Fin 1000),
               Alcance1.total_t_co2e = ddiv (Math_round_d (dmul (ddiv (total_alcance1_kg) (Fin 1000)) (Fin 1000))) (Fin 1000) \<rparr>,
           alcance_2 =
             \<lparr> electricidad_edificios = ddiv (Math_round_d (dmul (ddiv (edificios_kg alcance2) (Fin 1000)) (Fin 1000))) (Fin 1000),
               electricidad_vehiculos = ddiv (Math_round_d (dmul (ddiv (vehiculos_kg alcance2) (Fin 1000)) (Fin 1000))) (Fin 1000),
               calor_vapor_frio = ddiv (Math_round_d (dmul (ddiv (calor_vapor_frio_kg alcance2) (Fin 1000)) (Fin 1000))) (Fin 1000),
               total_t_co2e = ddiv (Math_round_d (dmul (ddiv (total_alcance2_kg) (Fin 1000)) (Fin 1000))) (Fin 1000) \<rparr>,
           total_alcance_1_2_t_co2e = ddiv (Math_round_d (dmul total_t (Fin 1000))) (Fin 1000),
           ratios =
             \<lparr> t_co2e_por_empleado = ddiv (Math_round_d (dmul (ddiv total_t numEmpleados) (Fin 1000))) (Fin 1000),
               t_co2e_por_m2 = ddiv (Math_round_d (dmul (ddiv total_t superficieM2) (Fin 10000))) (Fin 10000),
               t_co2e_por_indice_actividad =
                 ddiv (Math_round_d (dmul (ddiv total_t indiceActividad) (Fin 1000000)))
                   (Fin 1000000) \<rparr> \<rparr>
      in (resultados, saveResults (orgId params) (anio params) resultados st))"

text \<open>
  Two readings of "grand totals equal the sum of their category subtotals" on a results
  value: the total denotes the exact sum of what the subtotals denote, or the total is the
  sum that JavaScript computes from the subtotals.
\<close>

definition totales_son_sumas :: "Resultados \<Rightarrow> bool" where
  "totales_son_sumas r \<longleftrightarrow>
     valor (Alcance1.total_t_co2e (alcance_1 r)) =
       valor (instalaciones_fijas_no_ley (alcance_1 r)) + valor (instalaciones_fijas_ley (alcance_1 r))
       + valor (transporte_carretera (alcance_1 r))
       + valor (transporte_ferroviario_maritimo_aereo (alcance_1 r))
       + valor (maquinaria (alcance_1 r)) + valor (fugitivas (alcance_1 r))
       + valor (proceso (alcance_1 r))
     \<and> valor (Alcance2.total_t_co2e (alcance_2 r)) =
       valor (electricidad_edificios (alcance_2 r)) + valor (electricidad_vehiculos (alcance_2 r))
       + valor (calor_vapor_frio (alcance_2 r))
     \<and> valor (total_alcance_1_2_t_co2e r) =
       valor (Alcance1.total_t_co2e (alcance_1 r)) + valor (Alcance2.total_t_co2e (alcance_2 r))"

definition totales_son_sumas_js :: "Resultados \<Rightarrow> bool" where
  "totales_son_sumas_js r \<longleftrightarrow>
     Alcance1.total_t_co2e (alcance_1 r) =
       dadd (dadd (dadd (dadd (dadd (dadd (instalaciones_fijas_no_ley (alcance_1 r))
         (instalaciones_fijas_ley (alcance_1 r))) (transporte_carretera (alcance_1 r)))
         (transporte_ferroviario_maritimo_aereo (alcance_1 r))) (maquinaria (alcance_1 r)))
         (fugitivas (alcance_1 r))) (proceso (alcance_1 r))
     \<and> Alcance2.total_t_co2e (alcance_2 r) =
       dadd (dadd (electricidad_edificios (alcance_2 r)) (electricidad_vehiculos (alcance_2 r)))
         (calor_vapor_frio (alcance_2 r))
     \<and> total_alcance_1_2_t_co2e r =
       dadd (Alcance1.total_t_co2e (alcance_1 r)) (Alcance2.total_t_co2e (alcance_2 r))"

text \<open>
  The ten category totals in kilograms that \<open>recalculate\<close> computes for an organization and
  year, and the range in which the bounds below are proved: finite, not negative, at most
  \<open>10 ^ 9\<close> kg.
\<close>

definition totales_kg :: "json_store \<Rightarrow> string \<times> int \<Rightarrow> double list" where
  "totales_kg st k =
     [no_ley_kg (calcularAlcance1InstalacionesFijas (scope1_instalaciones_fijas st k)),
      ley_kg (calcularAlcance1InstalacionesFijas (scope1_instalaciones_fijas st k)),
      carretera_kg (calcularAlcance1Vehiculos (scope1_vehiculos st k)),
      no_carretera_kg (calcularAlcance1Vehiculos (scope1_vehiculos st k)),
      maquinaria_kg (calcularAlcance1Vehiculos (scope1_vehiculos st k)),
      calcularAlcance1Fugitivas (scope1_fugitivas st k),
      calcularAlcance1Proceso (scope1_proceso st k),
      edificios_kg (calcularAlcance2 (scope2_electricidad st k)),
      vehiculos_kg (calcularAlcance2 (scope2_electricidad st k)),
      calor_vapor_frio_kg (calcularAlcance2 (scope2_electricidad st k))]"

definition kg_en_rango :: "double \<Rightarrow> bool" where
  "kg_en_rango d = (case d of Fin a \<Rightarrow> 0 \<le> a \<and> a \<le> 10 ^ 9 | _ \<Rightarrow> False)"

text \<open>
  A store with two fixed installations of 0.375 kg CO2e each, one not subject to
  Ley 1/2005 and one subject to it, and nothing else.
\<close>

definition almacen_dos_instalaciones :: json_store where
  "almacen_dos_instalaciones =
     \<lparr> organization = Map.empty,
       scope1_instalaciones_fijas = Map.empty((''org_001'', 2024) \<mapsto>
         \<lparr> no_sujetas_ley_1_2005 = [\<lparr> emisiones_totales_kg_co2e = Fin (3 / 8) \<rparr>],
           sujetas_ley_1_2005 = [\<lparr> emisiones_totales_kg_co2e = Fin (3 / 8) \<rparr>] \<rparr>),
       scope1_vehiculos = Map.empty,
       scope1_fugitivas = Map.empty,
       scope1_proceso = Map.empty,
       scope2_electricidad = Map.empty,
       results = Map.empty \<rparr>"

definition params_org_001_2024 :: RecalculateParams where
  "params_org_001_2024 = \<lparr> orgId = ''org_001'', anio = 2024, scope = Some Both \<rparr>"

section \<open>Change events, validation results and audit entries (hc-schemas.ts)\<close>

text \<open>
  \<open>oldValue\<close> and \<open>newValue\<close> of a change event are \<open>z.any()\<close>: any JavaScript value.
\<close>

datatype jsvalue = Undefined | JNull | JBool bool | JNum rat | JStr string

record DataChangeEvent =
  userId :: string
  orgId :: string
  anio :: int
  entity :: string
  entityId :: "string option"
  field :: string
  oldValue :: jsvalue
  newValue :: jsvalue
  affectedScope :: scope
  timestamp :: string

datatype severity = Error | Warning

text \<open>
  The messages are template strings; the model keeps which template it is and the values
  that are spliced into it.
\<close>

datatype mensaje =
    AnioFueraDeRango int
  | AnioSinFactoresPropios int "int option"
  | ValorNegativo string
  | ValorInusualmenteAlto rat
  | CombustibleNoReconocido string

record ValidationEntry =
  field :: string
  message :: mensaje
  severity :: severity

record ValidationResult =
  isValid :: bool
  errors :: "ValidationEntry list"

datatype AccionAuditoria = CREATE | UPDATE | DELETE | CALCULATE | EXPORT | LOGIN | LOGOUT | IMPORT

record AuditEntry =
  userId :: string
  orgId :: string
  accion :: AccionAuditoria
  entidad :: string
  entidadId :: "string option"
  campoModificado :: "string option"
  valorAnterior :: jsvalue
  valorNuevo :: jsvalue
  timestamp :: string
  ipAddress :: "string option"
  sessionId :: "string option"

text \<open>
  A cell of \<open>audit_log.csv\<close>: literal text, or \<open>String(v)\<close> of a JavaScript value,
  which the model does not spell out.
\<close>

datatype celda = Texto string | StringDe jsvalue

record AuditRow =
  id_row :: string
  user_id :: string
  org_id :: string
  accion :: AccionAuditoria
  entidad_tipo :: string
  entidad_id :: string
  campo_modificado :: string
  valor_anterior :: celda
  valor_nuevo :: celda
  timestamp :: string
  ip_address :: string
  session_id :: string

section \<open>Reference data (pg-store.ts)\<close>

record EmissionFactors =
  anios_disponibles :: "int list"

record Dropdowns =
  tipos_combustible_fijo :: "string list"
  tipos_combustible_vehiculo :: "string list"

record static_data =
  emission_factors :: "EmissionFactors option"
  dropdowns :: "Dropdowns option"

text \<open>
  In pg-store.ts \<open>loadEmissionFactors\<close> and \<open>loadDropdowns\<close> are \<open>async\<close> functions: a call
  returns a promise, and only \<open>await\<close> gives the value it resolves to. A promise is an
  object, so it is truthy, and it has no property \<open>anios_disponibles\<close>,
  \<open>tipos_combustible_fijo\<close> or \<open>tipos_combustible_vehiculo\<close>: reading one yields
  \<open>undefined\<close>.
\<close>

datatype 'a promise = Promise 'a

definition loadEmissionFactors :: "static_data \<Rightarrow> EmissionFactors option promise" where
  "loadEmissionFactors sd = Promise (emission_factors sd)"

definition loadDropdowns :: "static_data \<Rightarrow> Dropdowns option promise" where
  "loadDropdowns sd = Promise (dropdowns sd)"

definition await :: "'a promise \<Rightarrow> 'a" where
  "await p = (case p of Promise v \<Rightarrow> v)"

definition truthy_promise :: "'a promise \<Rightarrow> bool" where
  "truthy_promise p = True"

text \<open>A property that a promise object does not have; \<open>None\<close> is \<open>undefined\<close>.\<close>

definition promise_property :: "'a promise \<Rightarrow> string \<Rightarrow> 'b option" where
  "promise_property p name = None"

section \<open>Validation (validation-agent.ts)\<close>

datatype failure = TypeError | ValidationError "ValidationEntry list"

text \<open>
  \<open>xs.includes(y)\<close> and \<open>[...xs, ...ys]\<close>, where the array may be \<open>undefined\<close>: calling a
  method on \<open>undefined\<close> and spreading \<open>undefined\<close> both throw a \<open>TypeError\<close>.
\<close>

definition includes_js :: "'a list option \<Rightarrow> 'a \<Rightarrow> failure + bool" where
  "includes_js xs y = (case xs of None \<Rightarrow> Inl TypeError | Some l \<Rightarrow> Inr (y \<in> set l))"

definition spread2 :: "'a list option \<Rightarrow> 'a list option \<Rightarrow> failure + 'a list" where
  "spread2 xs ys =
     (case xs of
        None \<Rightarrow> Inl TypeError
      | Some l \<Rightarrow> (case ys of None \<Rightarrow> Inl TypeError | Some m \<Rightarrow> Inr (l @ m)))"

definition last_element :: "int list option \<Rightarrow> int option" where
  "last_element xs = (case xs of None \<Rightarrow> None | Some l \<Rightarrow> (if l = [] then None else Some (last l)))"

text \<open>The year rule. \<open>factors\<close> is what the un-awaited call returned.\<close>

definition validar_anio :: "EmissionFactors option promise \<Rightarrow> DataChangeEvent
    \<Rightarrow> ValidationEntry list \<Rightarrow> failure + ValidationEntry list" where
  "validar_anio factors event errs =
     (if anio event < 2007 \<or> anio event > 2027 then
        Inr (errs @ [\<lparr> field = ''anio'', message = AnioFueraDeRango (anio event),
                        severity = Error \<rparr>])
      else if truthy_promise factors then
        (case includes_js (promise_property factors ''anios_disponibles'') (anio event) of
           Inl e \<Rightarrow> Inl e
         | Inr found \<Rightarrow>
             if \<not> found then
               Inr (errs @ [\<lparr> field = ''anio'',
                               message = AnioSinFactoresPropios (anio event)
                                 (last_element (promise_property factors ''anios_disponibles'')),
                               severity = Warning \<rparr>])
             else Inr errs)
      else Inr errs)"

text \<open>The non-negativity rule: any numeric new value, whatever the field.\<close>

definition validar_no_negativo :: "DataChangeEvent \<Rightarrow> ValidationEntry list \<Rightarrow> ValidationEntry list" where
  "validar_no_negativo event errs =
     (case newValue event of
        JNum v \<Rightarrow>
          if v < 0 then
            errs @ [\<lparr> field = DataChangeEvent.field event,
                       message = ValorNegativo (DataChangeEvent.field event),
                       severity = Error \<rparr>]
          else errs
      | _ \<Rightarrow> errs)"

text \<open>The size rule: \<open>event.field.includes('cantidad')\<close> is a substring test.\<close>

definition validar_cantidad :: "DataChangeEvent \<Rightarrow> ValidationEntry list \<Rightarrow> ValidationEntry list" where
  "validar_cantidad event errs =
     (case newValue event of
        JNum v \<Rightarrow>
          if sublist ''cantidad'' (DataChangeEvent.field event) \<and> v > 10000000 then
            errs @ [\<lparr> field = DataChangeEvent.field event,
                       message = ValorInusualmenteAlto v,
                       severity = Warning \<rparr>]
          else errs
      | _ \<Rightarrow> errs)"

text \<open>The fuel rule. \<open>desplegables\<close> is what the un-awaited call returned.\<close>

definition validar_combustible :: "Dropdowns option promise \<Rightarrow> DataChangeEvent
    \<Rightarrow> ValidationEntry list \<Rightarrow> failure + ValidationEntry list" where
  "validar_combustible desplegables event errs =
     (case newValue event of
        JStr v \<Rightarrow>
          if DataChangeEvent.field event = ''tipo_combustible'' then
            (if truthy_promise desplegables then
               (case spread2 (promise_property desplegables ''tipos_combustible_fijo'')
                             (promise_property desplegables ''tipos_combustible_vehiculo'') of
                  Inl e \<Rightarrow> Inl e
                | Inr validFuels \<Rightarrow>
                    if v \<notin> set validFuels then
                      Inr (errs @ [\<lparr> field = DataChangeEvent.field event,
                                      message = CombustibleNoReconocido v,
                                      severity = Warning \<rparr>])
                    else Inr errs)
             else Inr errs)
          else Inr errs
      | _ \<Rightarrow> Inr errs)"

definition validate :: "static_data \<Rightarrow> DataChangeEvent \<Rightarrow> failure + ValidationResult" where
  "validate sd event =
     (let factors = loadEmissionFactors sd in
      case validar_anio factors event [] of
        Inl e \<Rightarrow> Inl e
      | Inr errs1 \<Rightarrow>
          (let errs2 = validar_no_negativo event errs1;
               errs3 = validar_cantidad event errs2
           in case validar_combustible (loadDropdowns sd) event errs3 of
                Inl e \<Rightarrow> Inl e
              | Inr errs4 \<Rightarrow>
                  Inr \<lparr> isValid = (length (filter (\<lambda>e. severity e = Error) errs4) = 0),
                        errors = errs4 \<rparr>))"

section \<open>Audit log (csv-handler.ts, audit-agent.ts)\<close>

text \<open>
  The state the orchestrator works on: the JSON files the calculation reads and writes, the
  results rows that pg-store.ts serves, the reference data, the rows of \<open>audit_log.csv\<close>,
  the source of UUIDs, and the order in which the agents have acted. Reading and writing the
  files and tables is taken to succeed.

  \<open>releer\<close> is what PapaParse makes of a stored row when the file is read with
  \<open>dynamicTyping\<close> and written back with \<open>unparse\<close> (a cell \<open>007\<close> comes back as \<open>7\<close>). The
  library is not part of the sources, so its effect on a row is a parameter of the state.
  The file is taken to have the columns of an audit row.
\<close>

datatype agent_call = AuditLog | Validate | Recalculate | CheckThresholds

record world =
  json :: json_store
  pg_results :: "string \<times> int \<Rightarrow> Resultados option"
  static :: static_data
  audit_log :: "AuditRow list"
  releer :: "AuditRow \<Rightarrow> AuditRow"
  uuid_source :: "nat \<Rightarrow> string"
  uuid_count :: nat
  calls :: "agent_call list"

definition enter :: "agent_call \<Rightarrow> world \<Rightarrow> world" where
  "enter c w = w \<lparr> calls := calls w @ [c] \<rparr>"

text \<open>\<open>s || ''\<close> for an optional string\<close>

definition or_empty :: "string option \<Rightarrow> string" where
  "or_empty s = (case s of None \<Rightarrow> [] | Some t \<Rightarrow> t)"

text \<open>\<open>v !== undefined ? String(v) : ''\<close>\<close>

definition celda_de :: "jsvalue \<Rightarrow> celda" where
  "celda_de v = (if v \<noteq> Undefined then StringDe v else Texto [])"

text \<open>
  \<open>appendRow('audit_log', row)\<close>: \<open>readCSV\<close> parses the whole file, the row is pushed, and
  \<open>writeCSV\<close> writes all rows back. The write is what the order of actions records.
\<close>

definition readCSV :: "world \<Rightarrow> AuditRow list" where
  "readCSV w = map (releer w) (audit_log w)"

definition writeCSV :: "AuditRow list \<Rightarrow> world \<Rightarrow> world" where
  "writeCSV data w = w \<lparr> audit_log := data, calls := calls w @ [AuditLog] \<rparr>"

definition appendRow :: "AuditRow \<Rightarrow> world \<Rightarrow> world" where
  "appendRow row w = (let existingData = readCSV w in writeCSV (existingData @ [row]) w)"

definition auditAgent_log :: "AuditEntry \<Rightarrow> world \<Rightarrow> world" where
  "auditAgent_log entry w =
     (let auditRow =
            \<lparr> id_row = ''aud_'' @ take 8 (uuid_source w (uuid_count w)),
              user_id = AuditEntry.userId entry,
              org_id = AuditEntry.orgId entry,
              AuditRow.accion = AuditEntry.accion entry,
              entidad_tipo = entidad entry,
              entidad_id = or_empty (entidadId entry),
              campo_modificado = or_empty (campoModificado entry),
              valor_anterior = celda_de (valorAnterior entry),
              valor_nuevo = celda_de (valorNuevo entry),
              AuditRow.timestamp = AuditEntry.timestamp entry,
              ip_address = or_empty (ipAddress entry),
              session_id = or_empty (sessionId entry) \<rparr>
      in appendRow auditRow (w \<lparr> uuid_count := Suc (uuid_count w) \<rparr>))"

text \<open>
  The agents as the orchestrator calls them: each records that it acts, in the state it is
  given, and does its work.
\<close>

definition validationAgent_validate :: "DataChangeEvent \<Rightarrow> world
    \<Rightarrow> (failure + ValidationResult) \<times> world" where
  "validationAgent_validate event w = (validate (static w) event, enter Validate w)"

definition calcAgent_recalculate :: "RecalculateParams \<Rightarrow> world \<Rightarrow> Resultados \<times> world" where
  "calcAgent_recalculate params w =
     (let (resultados, js) = recalculate params (json w)
      in (resultados, enter Recalculate (w \<lparr> json := js \<rparr>)))"

section \<open>Orchestrator (orchestrator.ts)\<close>

definition THRESHOLD_PERCENT :: double where
  "THRESHOLD_PERCENT = Fin 10"

datatype direccion = AUMENTO | REDUCCION

text \<open>
  The threshold alert is a template string; the model keeps the values spliced into it:
  the direction, \<open>Math.abs(variacion).toFixed(1)\<close>, the previous year, the two totals
  with \<open>toFixed(2)\<close>, and the threshold.
\<close>

record AlertaUmbral =
  sentido :: direccion
  variacion_abs :: texto_numero
  anio_anterior :: int
  total_anterior :: texto_numero
  total_actual :: texto_numero
  umbral :: double

datatype alerta = AvisoValidacion mensaje | Umbral AlertaUmbral

definition loadResults_pg :: "string \<Rightarrow> int \<Rightarrow> world \<Rightarrow> Resultados option" where
  "loadResults_pg org year w = pg_results w (org, year)"

definition checkThresholds :: "string \<Rightarrow> int \<Rightarrow> Resultados \<Rightarrow> world \<Rightarrow> alerta list" where
  "checkThresholds org year currentResults w =
     (case loadResults_pg org (year - 1) w of
        None \<Rightarrow> []
      | Some previousResults \<Rightarrow>
          if dless (Fin 0) (total_alcance_1_2_t_co2e previousResults) then
            (let previousTotal = total_alcance_1_2_t_co2e previousResults;
                 currentTotal = total_alcance_1_2_t_co2e currentResults;
                 variacion = dmul (ddiv (dsub currentTotal previousTotal) previousTotal) (Fin 100)
             in if dless THRESHOLD_PERCENT (dabs variacion) then
                  [Umbral \<lparr> sentido = (if dless (Fin 0) variacion then AUMENTO else REDUCCION),
                             variacion_abs = toFixed_d 1 (dabs variacion),
                             anio_anterior = year - 1,
                             total_anterior = toFixed_d 2 previousTotal,
                             total_actual = toFixed_d 2 currentTotal,
                             umbral = THRESHOLD_PERCENT \<rparr>]
                else [])
          else [])"

record DataChangeResult =
  results :: Resultados
  alerts :: "alerta list"
  validation :: ValidationResult

definition onDataChange :: "DataChangeEvent \<Rightarrow> world \<Rightarrow> (failure + DataChangeResult) \<times> world" where
  "onDataChange event w =
     (let w1 = auditAgent_log
                 \<lparr> userId = DataChangeEvent.userId event,
                   orgId = DataChangeEvent.orgId event,
                   AuditEntry.accion = UPDATE,
                   entidad = entity event,
                   entidadId = entityId event,
                   campoModificado = Some (DataChangeEvent.field event),
                   valorAnterior = oldValue event,
                   valorNuevo = newValue event,
                   AuditEntry.timestamp = DataChangeEvent.timestamp event,
                   ipAddress = None,
                   sessionId = None \<rparr>
                 w
      in case validationAgent_validate event w1 of
           (Inl e, w2) \<Rightarrow> (Inl e, w2)
         | (Inr v, w2) \<Rightarrow>
             if \<not> isValid v then (Inl (ValidationError (errors v)), w2)
             else
               (let warnings = map (\<lambda>e. AvisoValidacion (message e))
                                 (filter (\<lambda>e. severity e = Warning) (errors v));
                    (updatedResults, w3) =
                      calcAgent_recalculate
                        \<lparr> RecalculateParams.orgId = DataChangeEvent.orgId event,
                          RecalculateParams.anio = DataChangeEvent.anio event,
                          scope = Some (affectedScope event) \<rparr> w2;
                    w4 = enter CheckThresholds w3;
                    thresholdAlerts =
                      checkThresholds (DataChangeEvent.orgId event) (DataChangeEvent.anio event)
                        updatedResults w4
                in (Inr \<lparr> results = updatedResults,
                          alerts = warnings @ thresholdAlerts,
                          validation = v \<rparr>, w4)))"

text \<open>\<open>onCalculate\<close>; \<open>ahora\<close> is \<open>new Date().toISOString()\<close>.\<close>

definition onCalculate :: "string \<Rightarrow> string \<Rightarrow> int \<Rightarrow> string \<Rightarrow> world
    \<Rightarrow> (Resultados \<times> alerta list) \<times> world" where
  "onCalculate user org year ahora w =
     (let w1 = auditAgent_log
                 \<lparr> userId = user, orgId = org, AuditEntry.accion = CALCULATE, entidad = ''results'',
                   entidadId = None, campoModificado = None,
                   valorAnterior = Undefined, valorNuevo = Undefined,
                   AuditEntry.timestamp = ahora, ipAddress = None, sessionId = None \<rparr>
                 w;
          (res, w2) = calcAgent_recalculate
                        \<lparr> RecalculateParams.orgId = org, RecalculateParams.anio = year,
                          scope = Some Both \<rparr> w1;
          w3 = enter CheckThresholds w2;
          thresholdAlerts = checkThresholds org year res w3
      in ((res, thresholdAlerts), w3))"

text \<open>Example data for the orchestrator.\<close>

definition resultados_con_total :: "double \<Rightarrow> Resultados" where
  "resultados_con_total t =
     \<lparr> anio_calculo = 2024,
       alcance_1 = \<lparr> instalaciones_fijas_no_ley = t, instalaciones_fijas_ley = Fin 0,
                     transporte_carretera = Fin 0, transporte_ferroviario_maritimo_aereo = Fin 0,
                     maquinaria = Fin 0, fugitivas = Fin 0, proceso = Fin 0,
                     Alcance1.total_t_co2e = t \<rparr>,
       alcance_2 = \<lparr> electricidad_edificios = Fin 0, electricidad_vehiculos = Fin 0,
                     calor_vapor_frio = Fin 0, total_t_co2e = Fin 0 \<rparr>,
       total_alcance_1_2_t_co2e = t,
       ratios = \<lparr> t_co2e_por_empleado = t, t_co2e_por_m2 = t,
                  t_co2e_por_indice_actividad = t \<rparr> \<rparr>"

definition mundo_inicial :: world where
  "mundo_inicial =
     \<lparr> json = almacen_dos_instalaciones,
       pg_results = Map.empty,
       static = \<lparr> emission_factors = Some \<lparr> anios_disponibles = [2022, 2023, 2024] \<rparr>,
                  dropdowns = Some \<lparr> tipos_combustible_fijo = [''Gas natural''],
                                      tipos_combustible_vehiculo = [''Gasolina''] \<rparr> \<rparr>,
       audit_log = [],
       releer = (\<lambda>r. r),
       uuid_source = (\<lambda>n. ''3f2a9c1e-0000-4000-8000-000000000000''),
       uuid_count = 0,
       calls = [] \<rparr>"

definition mundo_con_anterior :: "double \<Rightarrow> world" where
  "mundo_con_anterior t =
     mundo_inicial \<lparr> pg_results := Map.empty((''org_001'', 2023) \<mapsto> resultados_con_total t) \<rparr>"

definition evento_cantidad :: "int \<Rightarrow> rat \<Rightarrow> DataChangeEvent" where
  "evento_cantidad year v =
     \<lparr> DataChangeEvent.userId = ''usr_001'', DataChangeEvent.orgId = ''org_001'', anio = year,
       entity = ''scope1_instalacion_fija'', entityId = Some ''inst_1'',
       DataChangeEvent.field = ''cantidad'', oldValue = JNum 100, newValue = JNum v,
       affectedScope = Scope1, DataChangeEvent.timestamp = ''2024-06-01T10:00:00.000Z'' \<rparr>"

section \<open>Storage guard (free-tier-guard.ts)\<close>

definition HARD_LIMIT_BYTES :: int where
  "HARD_LIMIT_BYTES = 400 * 1024 * 1024"

definition WARN_LIMIT_BYTES :: int where
  "WARN_LIMIT_BYTES = 300 * 1024 * 1024"

definition MAX_ROWS :: int where
  "MAX_ROWS = 10000"

definition CACHE_TTL_MS :: int where
  "CACHE_TTL_MS = 60000"

record SizeCache =
  bytes :: int
  rows :: int
  checkedAt :: int

text \<open>
  What a statistics query does when it is run: it throws, or it returns its first row, if
  any. The row holds the number as text; the model holds the integer \<open>parseInt\<close> reads.
\<close>

datatype 'a query = QueryThrows | QueryReturns 'a

record usage =
  size_query :: "int option query"
  count_query :: "int option query"

text \<open>\<open>parseInt(row?.n || '0', 10)\<close>\<close>

definition or_0 :: "int option \<Rightarrow> int" where
  "or_0 row = (case row of None \<Rightarrow> 0 | Some n \<Rightarrow> n)"

text \<open>
  \<open>getDatabaseSize\<close>; \<open>now\<close> is \<open>Date.now()\<close>, \<open>db\<close> is what the two queries would do
  at this moment, and the module variable \<open>_cache\<close> is passed in and returned.
\<close>

definition getDatabaseSize :: "int \<Rightarrow> usage \<Rightarrow> SizeCache option \<Rightarrow> SizeCache \<times> SizeCache option" where
  "getDatabaseSize now db cache =
     (case (case cache of
              None \<Rightarrow> None
            | Some c \<Rightarrow> if now - checkedAt c < CACHE_TTL_MS then Some c else None) of
        Some c \<Rightarrow> (c, cache)
      | None \<Rightarrow>
          (case size_query db of
             QueryThrows \<Rightarrow> (\<lparr> bytes = 0, rows = 0, checkedAt = now \<rparr>, cache)
           | QueryReturns sizeRow \<Rightarrow>
               (case count_query db of
                  QueryThrows \<Rightarrow> (\<lparr> bytes = 0, rows = 0, checkedAt = now \<rparr>, cache)
                | QueryReturns rowCountRow \<Rightarrow>
                    (let result = \<lparr> bytes = or_0 sizeRow, rows = or_0 rowCountRow,
                                      checkedAt = now \<rparr>
                     in (result, Some result)))))"

text \<open>The two block messages and the warning, with the values spliced into them.\<close>

datatype aviso_guard =
    BloqueadoTamano rat rat
  | BloqueadoFilas int
  | AvisoCapacidad rat rat rat

record GuardResult =
  allowed :: bool
  dbSizeBytes :: int
  dbSizeMB :: rat
  rowCount :: int
  limitMB :: rat
  warnMB :: rat
  usagePercent :: rat
  warning :: "aviso_guard option"
  error :: "aviso_guard option"

definition veredicto :: "SizeCache \<Rightarrow> GuardResult" where
  "veredicto m =
     (let limit_mb = Math_round (of_int HARD_LIMIT_BYTES / 1024 / 1024);
          warn_mb = Math_round (of_int WARN_LIMIT_BYTES / 1024 / 1024);
          size_mb = toFixed 2 (of_int (bytes m) / 1024 / 1024);
          percent = toFixed 1 ((of_int (bytes m) / of_int HARD_LIMIT_BYTES) * 100);
          base = \<lparr> allowed = True, dbSizeBytes = bytes m, dbSizeMB = size_mb,
                   rowCount = rows m, limitMB = limit_mb, warnMB = warn_mb,
                   usagePercent = percent, warning = None, error = None \<rparr>
      in if bytes m \<ge> HARD_LIMIT_BYTES then
           base \<lparr> allowed := False, error := Some (BloqueadoTamano size_mb limit_mb) \<rparr>
         else if rows m \<ge> MAX_ROWS then
           base \<lparr> allowed := False, error := Some (BloqueadoFilas MAX_ROWS) \<rparr>
         else if bytes m \<ge> WARN_LIMIT_BYTES then
           base \<lparr> warning := Some (AvisoCapacidad percent size_mb limit_mb) \<rparr>
         else base)"

text \<open>
  \<open>checkWriteAllowed\<close>: measure (or take the cached measurement) and judge it. The body
  after the first line of the source is \<open>veredicto\<close>.
\<close>

definition checkWriteAllowed :: "int \<Rightarrow> usage \<Rightarrow> SizeCache option \<Rightarrow> GuardResult \<times> SizeCache option" where
  "checkWriteAllowed now db cache =
     (let (m, cache') = getDatabaseSize now db cache in (veredicto m, cache'))"

definition invalidateCache :: "SizeCache option \<Rightarrow> SizeCache option" where
  "invalidateCache cache = None"

section \<open>Guarded writes (pg-store.ts)\<close>

datatype store_error = FreeTierBlockedError "aviso_guard option" | QueryError

definition guardWrite :: "int \<Rightarrow> usage \<Rightarrow> SizeCache option \<Rightarrow> (store_error + unit) \<times> SizeCache option" where
  "guardWrite now db cache =
     (let (result, cache') = checkWriteAllowed now db cache
      in if \<not> allowed result then (Inl (FreeTierBlockedError (error result)), cache')
         else (Inr (), cache'))"

text \<open>
  The store: the guard's cache and the table \<open>org_year_data\<close>, keyed by organization, year
  and kind. \<open>upsertOrgData\<close> checks the guard, runs the \<open>INSERT ... ON CONFLICT\<close> (which
  succeeds or throws, as \<open>escritura\<close> says) and then invalidates the cache.
\<close>

record 'd pg_state =
  cache :: "SizeCache option"
  org_year_data :: "string \<times> int \<times> string \<Rightarrow> 'd option"

definition upsertOrgData :: "int \<Rightarrow> usage \<Rightarrow> unit query \<Rightarrow> string \<Rightarrow> int \<Rightarrow> string \<Rightarrow> 'd
    \<Rightarrow> 'd pg_state \<Rightarrow> (store_error + unit) \<times> 'd pg_state" where
  "upsertOrgData now db escritura org year tipo data st =
     (case guardWrite now db (cache st) of
        (Inl e, cache') \<Rightarrow> (Inl e, st \<lparr> cache := cache' \<rparr>)
      | (Inr u, cache') \<Rightarrow>
          (case escritura of
             QueryThrows \<Rightarrow> (Inl QueryError, st \<lparr> cache := cache' \<rparr>)
           | QueryReturns u' \<Rightarrow>
               (Inr (),
                st \<lparr> org_year_data := (org_year_data st)((org, year, tipo) \<mapsto> data),
                     cache := invalidateCache cache' \<rparr>)))"

text \<open>Example measurements for the guard.\<close>

definition uso :: "int \<Rightarrow> int \<Rightarrow> usage" where
  "uso b r = \<lparr> size_query = QueryReturns (Some b), count_query = QueryReturns (Some r) \<rparr>"

definition uso_falla :: usage where
  "uso_falla = \<lparr> size_query = QueryThrows, count_query = QueryThrows \<rparr>"

definition almacen_vacio :: "string pg_state" where
  "almacen_vacio = \<lparr> cache = None, org_year_data = Map.empty \<rparr>"

section \<open>Properties of the number model\<close>

text \<open>
  The exponent is not above the number, so the spacing used by \<open>fl\<close> is at most
  \<open>\<bar>x\<bar> / 2 ^ 52\<close>; rounding moves a number by at most half the spacing and keeps its sign;
  numbers up to \<open>2 ^ 100\<close> in magnitude stay finite.
\<close>

lemma expo_le:
  assumes "x \<noteq> 0"
  shows "power_int 2 (expo x) \<le> \<bar>x\<bar>"
proof -
  obtain a b where q: "quotient_of \<bar>x\<bar> = (a, b)"
    by (cases "quotient_of \<bar>x\<bar>")
  then have b: "0 < b" and x: "\<bar>x\<bar> = of_int a / of_int b"
    by (simp_all add: quotient_of_denom_pos quotient_of_div)
  from assms have "0 < \<bar>x\<bar>"
    by simp
  with x b have a: "0 < a"
    by (simp add: zero_less_divide_iff)
  let ?e = "bitlen a - bitlen b"
  show ?thesis
  proof (cases "power_int 2 ?e \<le> \<bar>x\<bar>")
    case True
    then show ?thesis
      by (simp add: expo_def q)
  next
    case False
    have la: "(2::rat) ^ nat (bitlen a - 1) \<le> of_int a"
      using bitlen_bounds [OF a] by (metis of_int_le_iff of_int_numeral of_int_power)
    have lb: "of_int b < (2::rat) ^ nat (bitlen b)"
      using bitlen_bounds [OF b] by (metis of_int_less_iff of_int_numeral of_int_power)
    have ba: "1 \<le> bitlen a" and bb: "0 \<le> bitlen b"
      using a by (auto simp: bitlen_alt_def)
    have eq: "bitlen a - bitlen b - 1 = (bitlen a - 1) - bitlen b"
      by linarith
    have "power_int (2::rat) (?e - 1) = power_int 2 ((bitlen a - 1) - bitlen b)"
      by (simp only: eq)
    also have "\<dots> = power_int 2 (bitlen a - 1) / power_int 2 (bitlen b)"
      by (rule power_int_diff) simp
    also have "\<dots> = 2 ^ nat (bitlen a - 1) / 2 ^ nat (bitlen b)"
      using ba bb by (simp add: power_int_def)
    also have "\<dots> \<le> of_int a / of_int b"
      using la lb a b by (intro frac_le) simp_all
    finally have "power_int (2::rat) (?e - 1) \<le> \<bar>x\<bar>"
      by (simp only: x)
    moreover have "expo x = ?e - 1"
      using False by (simp add: expo_def q)
    ultimately show ?thesis
      by simp
  qed
qed

lemma round_even_err: "\<bar>of_int (round_even m) - m\<bar> \<le> 1 / 2"
proof -
  have "of_int \<lfloor>m\<rfloor> \<le> m" and "m < of_int \<lfloor>m\<rfloor> + 1"
    by linarith+
  then show ?thesis
    unfolding round_even_def Let_def by (auto simp: abs_le_iff)
qed

lemma round_even_sign: "0 \<le> m \<Longrightarrow> 0 \<le> round_even m" "m \<le> 0 \<Longrightarrow> round_even m \<le> 0"
proof -
  have f: "of_int \<lfloor>m\<rfloor> \<le> m" "m < of_int \<lfloor>m\<rfloor> + 1"
    by linarith+
  show "0 \<le> m \<Longrightarrow> 0 \<le> round_even m"
    unfolding round_even_def Let_def by (auto simp: zero_le_floor) 
  show "m \<le> 0 \<Longrightarrow> round_even m \<le> 0"
    unfolding round_even_def Let_def using f by auto
qed

lemma fl_err: "\<bar>fl x - x\<bar> \<le> (\<bar>x\<bar> + 1) / 2 ^ 53"
proof (cases "x = 0")
  case True
  then show ?thesis
    by (simp add: fl_def)
next
  case False
  define e where "e = max (expo x - 52) (- 1074)"
  define p where "p = power_int (2::rat) e"
  have p: "0 < p"
    by (simp add: p_def)
  have "fl x - x = (of_int (round_even (x / p)) - x / p) * p"
    using False p by (simp add: fl_def e_def p_def Let_def algebra_simps)
  then have "\<bar>fl x - x\<bar> = \<bar>of_int (round_even (x / p)) - x / p\<bar> * p"
    using p by (simp add: abs_mult)
  also have "\<dots> \<le> 1 / 2 * p"
    using round_even_err [of "x / p"] p by (intro mult_right_mono) simp_all
  finally have half: "\<bar>fl x - x\<bar> \<le> p / 2"
    by simp
  have "p / 2 \<le> (\<bar>x\<bar> + 1) / 2 ^ 53"
  proof (cases "expo x - 52 \<ge> - 1074")
    case True
    then have "e = expo x - 52"
      by (simp add: e_def)
    moreover have "power_int (2::rat) (expo x - 52) = power_int 2 (expo x) / power_int 2 52"
      by (rule power_int_diff) simp
    ultimately have "p = power_int 2 (expo x) / power_int 2 52"
      by (simp only: p_def)
    then have "p = power_int 2 (expo x) / 2 ^ 52"
      by simp
    then have "p / 2 = power_int 2 (expo x) / 2 ^ 53"
      by simp
    also have "\<dots> \<le> \<bar>x\<bar> / 2 ^ 53"
      using expo_le [OF False] by (intro divide_right_mono) simp_all
    also have "\<dots> \<le> (\<bar>x\<bar> + 1) / 2 ^ 53"
      by (intro divide_right_mono) simp_all
    finally show ?thesis .
  next
    case False
    then have "e = - 1074"
      by (simp add: e_def)
    then have "p = power_int 2 (- 1074)"
      by (simp only: p_def)
    then have "p = 1 / 2 ^ 1074"
      by (simp add: power_int_minus_divide)
    then have "p / 2 = 1 / 2 ^ 1075"
      by simp
    also have "\<dots> \<le> 1 / (2::rat) ^ 53"
      by (intro divide_left_mono power_increasing) simp_all
    also have "\<dots> \<le> (\<bar>x\<bar> + 1) / 2 ^ 53"
      by (intro divide_right_mono) simp_all
    finally show ?thesis .
  qed
  with half show ?thesis
    by linarith
qed

lemma fl_sign: "0 \<le> x \<Longrightarrow> 0 \<le> fl x" "x \<le> 0 \<Longrightarrow> fl x \<le> 0"
  by (auto simp: fl_def Let_def zero_le_mult_iff mult_le_0_iff round_even_sign
      divide_nonneg_pos divide_nonpos_pos intro!: round_even_sign)


lemma expo_0: "expo 0 = - 2"
  by (simp add: expo_def bitlen_alt_def Let_def power_int_minus_divide)

lemma rnd_Fin:
  assumes "\<bar>x\<bar> \<le> 2 ^ 100"
  shows "rnd x = Fin (fl x)"
proof -
  have "\<bar>fl x\<bar> \<le> \<bar>x\<bar> + (\<bar>x\<bar> + 1) / 2 ^ 53"
    using fl_err [of x] by linarith
  also have "\<dots> \<le> 2 ^ 100 + (2 ^ 100 + 1) / 2 ^ 53"
    using assms by (intro add_mono divide_right_mono) simp_all
  also have "\<dots> \<le> (2::rat) ^ 101"
    by simp
  finally have b: "\<bar>fl x\<bar> \<le> 2 ^ 101" .
  have "expo (fl x) < 1024"
  proof (cases "fl x = 0")
    case True
    then show ?thesis
      by (simp add: expo_0)
  next
    case False
    show ?thesis
    proof (rule ccontr)
      assume "\<not> expo (fl x) < 1024"
      then have "power_int (2::rat) 1024 \<le> power_int 2 (expo (fl x))"
        by (intro power_int_increasing) simp_all
      also have "\<dots> \<le> \<bar>fl x\<bar>"
        by (rule expo_le [OF False])
      also note b
      finally have "(2::rat) ^ 1024 \<le> 2 ^ 101"
        by simp
      then show False
        by (simp add: power_increasing_iff)
    qed
  qed
  then show ?thesis
    by (simp add: rnd_def Let_def)
qed

lemma rnd_bounds:
  assumes "\<bar>x\<bar> \<le> 2 ^ 100"
  obtains y where "rnd x = Fin y" and "\<bar>y - x\<bar> \<le> (\<bar>x\<bar> + 1) / 2 ^ 53"
    and "0 \<le> x \<Longrightarrow> 0 \<le> y" and "x \<le> 0 \<Longrightarrow> y \<le> 0"
  using rnd_Fin [OF assms] fl_err [of x] fl_sign [of x] by blast


lemma fl_rel: "\<bar>fl x - x\<bar> \<le> \<bar>x\<bar> / 2 ^ 53 + 1 / 2 ^ 200"
proof (cases "x = 0")
  case True
  then show ?thesis
    by (simp add: fl_def)
next
  case False
  define e where "e = max (expo x - 52) (- 1074)"
  define p where "p = power_int (2::rat) e"
  have p: "0 < p"
    by (simp add: p_def)
  have "fl x - x = (of_int (round_even (x / p)) - x / p) * p"
    using False p by (simp add: fl_def e_def p_def Let_def algebra_simps)
  then have "\<bar>fl x - x\<bar> = \<bar>of_int (round_even (x / p)) - x / p\<bar> * p"
    using p by (simp add: abs_mult)
  also have "\<dots> \<le> 1 / 2 * p"
    using round_even_err [of "x / p"] p by (intro mult_right_mono) simp_all
  finally have half: "\<bar>fl x - x\<bar> \<le> p / 2"
    by simp
  have "p / 2 \<le> \<bar>x\<bar> / 2 ^ 53 \<or> p / 2 \<le> 1 / 2 ^ 200"
  proof (cases "expo x - 52 \<ge> - 1074")
    case True
    then have "e = expo x - 52"
      by (simp add: e_def)
    moreover have "power_int (2::rat) (expo x - 52) = power_int 2 (expo x) / power_int 2 52"
      by (rule power_int_diff) simp
    ultimately have "p = power_int 2 (expo x) / power_int 2 52"
      by (simp only: p_def)
    then have "p = power_int 2 (expo x) / 2 ^ 52"
      by simp
    then have "p / 2 = power_int 2 (expo x) / 2 ^ 53"
      by simp
    also have "\<dots> \<le> \<bar>x\<bar> / 2 ^ 53"
      using expo_le [OF \<open>x \<noteq> 0\<close>] by (intro divide_right_mono) simp_all
    finally show ?thesis
      by simp
  next
    case False
    then have "e = - 1074"
      by (simp add: e_def)
    then have "p = power_int 2 (- 1074)"
      by (simp only: p_def)
    then have "p = 1 / 2 ^ 1074"
      by (simp add: power_int_minus_divide)
    then have "p / 2 = 1 / 2 ^ 1075"
      by simp
    also have "\<dots> \<le> 1 / (2::rat) ^ 200"
      by (intro divide_left_mono power_increasing) simp_all
    finally show ?thesis
      by simp
  qed
  moreover have "0 \<le> \<bar>x\<bar> / 2 ^ 53" and "(0::rat) \<le> 1 / 2 ^ 200"
    by simp_all
  ultimately show ?thesis
    using half by linarith
qed




section \<open>Properties of the calculation engine\<close>

lemma floor_rat_numeral [simp]:
  "\<lfloor>numeral a / numeral b :: rat\<rfloor> = numeral a div numeral b"
  using floor_divide_of_int_eq [of "numeral a" "numeral b", where ?'a = rat] by simp

lemma floor_rat_neg_numeral [simp]:
  "\<lfloor>- (numeral a / numeral b) :: rat\<rfloor> = - numeral a div numeral b"
  using floor_divide_of_int_eq [of "- numeral a" "numeral b", where ?'a = rat] by simp

lemma floor_rat_one_numeral [simp]:
  "\<lfloor>1 / numeral b :: rat\<rfloor> = 1 div numeral b"
  using floor_divide_of_int_eq [of 1 "numeral b", where ?'a = rat] by simp









lemma combustion_50000_eval:
  "calcularEmisionesCombustible (Fin 50000)
     \<lparr>co2_kg_ud = rnd (202 / 1000), ch4_g_ud = rnd (4 / 100000), n2o_g_ud = rnd (1 / 100000)\<rparr>
   = \<lparr>co2_kg = Fin 10100, ch4_g = Fin 2, n2o_g = Fin (1 / 2),
      total_kg_co2e = rnd (10100192 / 1000)\<rparr>"
  by code_simp

lemma rnd_10100192: "rnd (10100192 / 1000) = Fin (2776319636692533 / 274877906944)"
  by code_simp

text \<open>
  C2, as stated: for \<open>q = 50000\<close> and the factor \<open>(0.202, 0.00004, 0.00001)\<close> the result has
  \<open>co2_kg\<close> within 0.1 of 10100 and \<open>total_kg_co2e\<close> within 0.1 of 10292.3. The total
  is 10100.192, so the statement fails.
\<close>

theorem combustion_50000_counterexample:
  "\<not> (cerca (1 / 10) 10100 (co2_kg (calcularEmisionesCombustible (Fin 50000)
            \<lparr>co2_kg_ud = rnd (202 / 1000), ch4_g_ud = rnd (4 / 100000),
             n2o_g_ud = rnd (1 / 100000)\<rparr>))
      \<and> cerca (1 / 10) (102923 / 10) (total_kg_co2e (calcularEmisionesCombustible (Fin 50000)
            \<lparr>co2_kg_ud = rnd (202 / 1000), ch4_g_ud = rnd (4 / 100000),
             n2o_g_ud = rnd (1 / 100000)\<rparr>)))"
  unfolding combustion_50000_eval rnd_10100192 by (simp add: cerca_def)

text \<open>
  C2, amended: for \<open>q = 50000\<close> and the factor \<open>(0.202, 0.00004, 0.00001)\<close> the result is
  \<open>co2_kg = 10100\<close>, \<open>ch4_g = 2\<close>, \<open>n2o_g = 0.5\<close> and \<open>total_kg_co2e = 10100.192\<close>
  (the number that this decimal denotes, within \<open>10 ^ - 11\<close> of it):
  the methane and nitrous-oxide masses are grams and are divided by 1000 before they are
  weighted, so they add 0.0558 kg and 0.1365 kg to the 10100 kg of carbon dioxide.
\<close>

theorem combustion_50000_value:
  "calcularEmisionesCombustible (Fin 50000)
     \<lparr>co2_kg_ud = rnd (202 / 1000), ch4_g_ud = rnd (4 / 100000), n2o_g_ud = rnd (1 / 100000)\<rparr>
   = \<lparr>co2_kg = Fin 10100, ch4_g = Fin 2, n2o_g = Fin (1 / 2),
      total_kg_co2e = rnd (10100192 / 1000)\<rparr>
   \<and> cerca (1 / 10 ^ 11) (10100192 / 1000) (rnd (10100192 / 1000))"
  unfolding combustion_50000_eval rnd_10100192 by (simp add: cerca_def)




section \<open>Properties of validation and of the audit trail\<close>

lemma validate_in_range:
  assumes "2007 \<le> DataChangeEvent.anio ev" and "DataChangeEvent.anio ev \<le> 2027"
  shows "validate sd ev = Inl TypeError"
  using assms
  by (simp add: validate_def validar_anio_def Let_def truthy_promise_def promise_property_def
      includes_js_def)

lemma auditAgent_log_keeps:
  "static (auditAgent_log a w) = static w"
  "pg_results (auditAgent_log a w) = pg_results w"
  "json (auditAgent_log a w) = json w"
  "calls (auditAgent_log a w) = calls w @ [AuditLog]"
  by (simp_all add: auditAgent_log_def appendRow_def writeCSV_def readCSV_def Let_def)

lemma onDataChange_in_range:
  assumes "2007 \<le> DataChangeEvent.anio ev" and "DataChangeEvent.anio ev \<le> 2027"
  shows "fst (onDataChange ev w) = Inl TypeError"
    and "calls (snd (onDataChange ev w)) = calls w @ [AuditLog, Validate]"
  using assms
  by (simp_all add: onDataChange_def Let_def validationAgent_validate_def validate_in_range
      enter_def auditAgent_log_keeps)

lemma validate_out_of_range_negative:
  assumes "DataChangeEvent.anio ev < 2007 \<or> 2027 < DataChangeEvent.anio ev"
    and "newValue ev = JNum v" and "v < 0"
  shows "\<exists>errs. validate sd ev = Inr \<lparr> isValid = False, errors = errs \<rparr>
           \<and> \<lparr> field = DataChangeEvent.field ev, message = ValorNegativo (DataChangeEvent.field ev),
                severity = Error \<rparr> \<in> set errs"
  using assms
  by (auto simp add: validate_def validar_anio_def validar_no_negativo_def validar_cantidad_def
      validar_combustible_def Let_def)

lemma onDataChange_out_of_range_negative:
  assumes "DataChangeEvent.anio ev < 2007 \<or> 2027 < DataChangeEvent.anio ev"
    and "newValue ev = JNum v" and "v < 0"
  shows "\<exists>errs. fst (onDataChange ev w) = Inl (ValidationError errs)
           \<and> \<lparr> field = DataChangeEvent.field ev, message = ValorNegativo (DataChangeEvent.field ev),
                severity = Error \<rparr> \<in> set errs"
    and "calls (snd (onDataChange ev w)) = calls w @ [AuditLog, Validate]"
proof -
  obtain errs where v: "validate (static w) ev = Inr \<lparr> isValid = False, errors = errs \<rparr>"
    and e: "\<lparr> field = DataChangeEvent.field ev, message = ValorNegativo (DataChangeEvent.field ev),
                severity = Error \<rparr> \<in> set errs"
    using validate_out_of_range_negative [OF assms] by blast
  show "\<exists>errs. fst (onDataChange ev w) = Inl (ValidationError errs)
           \<and> \<lparr> field = DataChangeEvent.field ev, message = ValorNegativo (DataChangeEvent.field ev),
                severity = Error \<rparr> \<in> set errs"
    using e
    by (simp add: onDataChange_def Let_def validationAgent_validate_def auditAgent_log_keeps v)
  show "calls (snd (onDataChange ev w)) = calls w @ [AuditLog, Validate]"
    by (simp add: onDataChange_def Let_def validationAgent_validate_def auditAgent_log_keeps v
        enter_def)
qed

lemma validate_never_valid:
  "validate sd ev = Inr v \<Longrightarrow> \<not> isValid v"
  by (auto simp add: validate_def validar_anio_def Let_def truthy_promise_def promise_property_def
      includes_js_def validar_no_negativo_def validar_cantidad_def validar_combustible_def spread2_def
      split: if_splits sum.splits jsvalue.splits)

lemma onDataChange_never_recalculates:
  "isl (fst (onDataChange ev w))"
  "calls (snd (onDataChange ev w)) = calls w @ [AuditLog, Validate]"
  using validate_never_valid [of "static w" ev]
  by (auto simp add: onDataChange_def Let_def validationAgent_validate_def auditAgent_log_keeps
      enter_def split: sum.splits)

text \<open>
  C6 at the event \<open>{anio: 2024, field: 'cantidad', newValue: -5}\<close>: the audit entry is
  written and validation is entered, and there the \<open>includes\<close> call on the missing property
  of the un-awaited promise throws. The orchestrator fails with that \<open>TypeError\<close>, not with a
  \<open>ValidationError\<close>; the recalculation is not entered.
\<close>

theorem onDataChange_negative_cantidad_2024:
  "fst (onDataChange (evento_cantidad 2024 (- 5)) mundo_inicial) = Inl TypeError
   \<and> calls (snd (onDataChange (evento_cantidad 2024 (- 5)) mundo_inicial)) = [AuditLog, Validate]"
  by (simp add: onDataChange_in_range evento_cantidad_def) (simp add: mundo_inicial_def)

text \<open>
  C7. For every change event and every state, \<open>onDataChange\<close> appends to the audit log one
  row recording the attempted change: the user, the organization, \<open>UPDATE\<close>, the entity and
  its identifier (empty when there is none), the field, the old and the new value (as
  \<open>String\<close> prints them, empty when \<open>undefined\<close>), the time of the event, and no address
  or session. The rows already in the file are written back as the CSV reader returns them.
  The write of the audit file is the first action and the validation the second, whatever
  validation and the later steps do. For instance the event
  \<open>{anio: 1999, field: 'cantidad', newValue: -5}\<close> is rejected with a \<open>ValidationError\<close>
  and its row is in the log.
\<close>

theorem onDataChange_audits_first:
  "audit_log (snd (onDataChange ev w)) = map (releer w) (audit_log w) @
     [\<lparr> id_row = ''aud_'' @ take 8 (uuid_source w (uuid_count w)),
        user_id = DataChangeEvent.userId ev,
        org_id = DataChangeEvent.orgId ev,
        AuditRow.accion = UPDATE,
        entidad_tipo = entity ev,
        entidad_id = (case entityId ev of None \<Rightarrow> [] | Some t \<Rightarrow> t),
        campo_modificado = DataChangeEvent.field ev,
        valor_anterior = (if oldValue ev = Undefined then Texto [] else StringDe (oldValue ev)),
        valor_nuevo = (if newValue ev = Undefined then Texto [] else StringDe (newValue ev)),
        AuditRow.timestamp = DataChangeEvent.timestamp ev,
        ip_address = [], session_id = [] \<rparr>]
   \<and> (\<exists>rest. calls (snd (onDataChange ev w)) = calls w @ AuditLog # Validate # rest)
   \<and> (\<exists>errs. fst (onDataChange (evento_cantidad 1999 (- 5)) mundo_inicial)
                = Inl (ValidationError errs))
   \<and> audit_log (snd (onDataChange (evento_cantidad 1999 (- 5)) mundo_inicial)) =
     [\<lparr> id_row = ''aud_3f2a9c1e'', user_id = ''usr_001'', org_id = ''org_001'',
        AuditRow.accion = UPDATE, entidad_tipo = ''scope1_instalacion_fija'',
        entidad_id = ''inst_1'', campo_modificado = ''cantidad'',
        valor_anterior = StringDe (JNum 100), valor_nuevo = StringDe (JNum (- 5)),
        AuditRow.timestamp = ''2024-06-01T10:00:00.000Z'',
        ip_address = [], session_id = [] \<rparr>]"
proof -
  have log: "audit_log (snd (onDataChange ev w)) = map (releer w) (audit_log w) @
     [\<lparr> id_row = ''aud_'' @ take 8 (uuid_source w (uuid_count w)),
        user_id = DataChangeEvent.userId ev,
        org_id = DataChangeEvent.orgId ev,
        AuditRow.accion = UPDATE,
        entidad_tipo = entity ev,
        entidad_id = (case entityId ev of None \<Rightarrow> [] | Some t \<Rightarrow> t),
        campo_modificado = DataChangeEvent.field ev,
        valor_anterior = (if oldValue ev = Undefined then Texto [] else StringDe (oldValue ev)),
        valor_nuevo = (if newValue ev = Undefined then Texto [] else StringDe (newValue ev)),
        AuditRow.timestamp = DataChangeEvent.timestamp ev,
        ip_address = [], session_id = [] \<rparr>]" for ev w
    by (simp add: onDataChange_def Let_def validationAgent_validate_def calcAgent_recalculate_def
        enter_def auditAgent_log_def appendRow_def writeCSV_def readCSV_def or_empty_def
        celda_de_def split: sum.splits prod.splits)
  have order: "\<exists>rest. calls (snd (onDataChange ev w)) = calls w @ AuditLog # Validate # rest"
    by (simp add: onDataChange_never_recalculates)
  have "\<exists>errs. fst (onDataChange (evento_cantidad 1999 (- 5)) mundo_inicial)
                = Inl (ValidationError errs)"
    using onDataChange_out_of_range_negative(1)
            [of "evento_cantidad 1999 (- 5)" "- 5" mundo_inicial]
    by (auto simp add: evento_cantidad_def)
  moreover have "audit_log (snd (onDataChange (evento_cantidad 1999 (- 5)) mundo_inicial)) =
     [\<lparr> id_row = ''aud_3f2a9c1e'', user_id = ''usr_001'', org_id = ''org_001'',
        AuditRow.accion = UPDATE, entidad_tipo = ''scope1_instalacion_fija'',
        entidad_id = ''inst_1'', campo_modificado = ''cantidad'',
        valor_anterior = StringDe (JNum 100), valor_nuevo = StringDe (JNum (- 5)),
        AuditRow.timestamp = ''2024-06-01T10:00:00.000Z'',
        ip_address = [], session_id = [] \<rparr>]"
    unfolding log by (simp add: evento_cantidad_def mundo_inicial_def)
  ultimately show ?thesis
    using log order by blast
qed

section \<open>Properties of the storage guard and the guarded writes\<close>

lemma getDatabaseSize_hit:
  assumes "ca = Some c" and "now - checkedAt c < CACHE_TTL_MS"
  shows "getDatabaseSize now db ca = (c, ca)"
  using assms by (simp add: getDatabaseSize_def)

lemma getDatabaseSize_measures:
  assumes "ca = None \<or> (\<exists>c. ca = Some c \<and> \<not> now - checkedAt c < CACHE_TTL_MS)"
    and "size_query db = QueryReturns a" and "count_query db = QueryReturns b"
  shows "getDatabaseSize now db ca =
           (\<lparr>bytes = or_0 a, rows = or_0 b, checkedAt = now\<rparr>,
            Some \<lparr>bytes = or_0 a, rows = or_0 b, checkedAt = now\<rparr>)"
  using assms by (auto simp add: getDatabaseSize_def Let_def)

lemma getDatabaseSize_fails:
  assumes "ca = None \<or> (\<exists>c. ca = Some c \<and> \<not> now - checkedAt c < CACHE_TTL_MS)"
    and "size_query db = QueryThrows \<or> count_query db = QueryThrows"
  shows "getDatabaseSize now db ca = (\<lparr>bytes = 0, rows = 0, checkedAt = now\<rparr>, ca)"
  using assms by (auto simp add: getDatabaseSize_def Let_def split: query.splits)

lemma veredicto_cases:
  "(HARD_LIMIT_BYTES \<le> bytes m \<or> MAX_ROWS \<le> rows m \<longrightarrow>
      \<not> allowed (veredicto m) \<and> error (veredicto m) \<noteq> None \<and> warning (veredicto m) = None)
 \<and> (WARN_LIMIT_BYTES \<le> bytes m \<and> bytes m < HARD_LIMIT_BYTES \<and> rows m < MAX_ROWS \<longrightarrow>
      allowed (veredicto m) \<and> warning (veredicto m) \<noteq> None \<and> error (veredicto m) = None)
 \<and> (bytes m < WARN_LIMIT_BYTES \<and> rows m < MAX_ROWS \<longrightarrow>
      allowed (veredicto m) \<and> warning (veredicto m) = None \<and> error (veredicto m) = None)
 \<and> dbSizeBytes (veredicto m) = bytes m \<and> rowCount (veredicto m) = rows m"
  by (simp add: veredicto_def Let_def HARD_LIMIT_BYTES_def WARN_LIMIT_BYTES_def MAX_ROWS_def)

text \<open>
  C8. \<open>checkWriteAllowed\<close> reports the measured bytes and rows and judges them: at or above
  the hard limit in bytes, or at or above the row limit, it returns \<open>allowed = false\<close> with an
  error message; otherwise, from the warn limit up to below the hard limit, \<open>allowed = true\<close>
  with a warning; otherwise \<open>allowed = true\<close> with neither message. The blocking case is
  tried first, so the two allowing cases are those with the row count below its limit.
\<close>

theorem checkWriteAllowed_policy:
  assumes "checkWriteAllowed now db ca = (res, ca')"
  shows "dbSizeBytes res = bytes (fst (getDatabaseSize now db ca))
       \<and> rowCount res = rows (fst (getDatabaseSize now db ca))
       \<and> (HARD_LIMIT_BYTES \<le> dbSizeBytes res \<or> MAX_ROWS \<le> rowCount res \<longrightarrow>
            \<not> allowed res \<and> error res \<noteq> None \<and> warning res = None)
       \<and> (WARN_LIMIT_BYTES \<le> dbSizeBytes res \<and> dbSizeBytes res < HARD_LIMIT_BYTES
            \<and> rowCount res < MAX_ROWS \<longrightarrow>
            allowed res \<and> warning res \<noteq> None \<and> error res = None)
       \<and> (dbSizeBytes res < WARN_LIMIT_BYTES \<and> rowCount res < MAX_ROWS \<longrightarrow>
            allowed res \<and> warning res = None \<and> error res = None)"
proof -
  from assms have res: "res = veredicto (fst (getDatabaseSize now db ca))"
    by (auto simp add: checkWriteAllowed_def split: prod.splits)
  show ?thesis
    using veredicto_cases [of "fst (getDatabaseSize now db ca)"] unfolding res by metis
qed

theorem checkWriteAllowed_policy_witness:
  "\<not> allowed (fst (checkWriteAllowed 0 (uso (400 * 1024 * 1024) 10) None))
   \<and> error (fst (checkWriteAllowed 0 (uso (400 * 1024 * 1024) 10) None)) \<noteq> None
   \<and> \<not> allowed (fst (checkWriteAllowed 0 (uso 5 10000) None))
   \<and> allowed (fst (checkWriteAllowed 0 (uso (400 * 1024 * 1024 - 1) 10) None))
   \<and> warning (fst (checkWriteAllowed 0 (uso (400 * 1024 * 1024 - 1) 10) None)) \<noteq> None
   \<and> allowed (fst (checkWriteAllowed 0 (uso (300 * 1024 * 1024 - 1) 10) None))
   \<and> warning (fst (checkWriteAllowed 0 (uso (300 * 1024 * 1024 - 1) 10) None)) = None
   \<and> error (fst (checkWriteAllowed 0 (uso (300 * 1024 * 1024 - 1) 10) None)) = None"
proof -
  have m: "fst (getDatabaseSize 0 (uso b r) None) = \<lparr>bytes = b, rows = r, checkedAt = 0\<rparr>" for b r
    by (simp add: getDatabaseSize_def uso_def or_0_def Let_def)
  have p: "(HARD_LIMIT_BYTES \<le> b \<or> MAX_ROWS \<le> r \<longrightarrow>
            \<not> allowed (fst (checkWriteAllowed 0 (uso b r) None))
            \<and> error (fst (checkWriteAllowed 0 (uso b r) None)) \<noteq> None)
       \<and> (WARN_LIMIT_BYTES \<le> b \<and> b < HARD_LIMIT_BYTES \<and> r < MAX_ROWS \<longrightarrow>
            allowed (fst (checkWriteAllowed 0 (uso b r) None))
            \<and> warning (fst (checkWriteAllowed 0 (uso b r) None)) \<noteq> None)
       \<and> (b < WARN_LIMIT_BYTES \<and> r < MAX_ROWS \<longrightarrow>
            allowed (fst (checkWriteAllowed 0 (uso b r) None))
            \<and> warning (fst (checkWriteAllowed 0 (uso b r) None)) = None
            \<and> error (fst (checkWriteAllowed 0 (uso b r) None)) = None)" for b r
    using checkWriteAllowed_policy [OF surjective_pairing, of 0 "uso b r" None]
    unfolding m by auto
  show ?thesis
    using p [of "400 * 1024 * 1024" 10] p [of 5 10000]
      p [of "400 * 1024 * 1024 - 1" 10] p [of "300 * 1024 * 1024 - 1" 10]
    by (simp add: HARD_LIMIT_BYTES_def WARN_LIMIT_BYTES_def MAX_ROWS_def)
qed

lemma checkWriteAllowed_hit:
  assumes "ca = Some c" and "now - checkedAt c < CACHE_TTL_MS"
  shows "checkWriteAllowed now db ca = (veredicto c, ca)"
  using assms by (simp add: checkWriteAllowed_def getDatabaseSize_hit)

lemma checkWriteAllowed_measures:
  assumes "ca = None \<or> (\<exists>c. ca = Some c \<and> \<not> now - checkedAt c < CACHE_TTL_MS)"
    and "size_query db = QueryReturns a" and "count_query db = QueryReturns b"
  shows "checkWriteAllowed now db ca =
           (veredicto \<lparr>bytes = or_0 a, rows = or_0 b, checkedAt = now\<rparr>,
            Some \<lparr>bytes = or_0 a, rows = or_0 b, checkedAt = now\<rparr>)"
  using getDatabaseSize_measures [OF assms] by (simp add: checkWriteAllowed_def)

lemma upsertOrgData_success:
  assumes "upsertOrgData now db escritura org year tipo data st = (Inr u, st')"
  shows "cache st' = None" and "org_year_data st' (org, year, tipo) = Some data"
  using assms
  by (auto simp add: upsertOrgData_def invalidateCache_def split: prod.splits sum.splits query.splits)

text \<open>
  C9. A call of \<open>checkWriteAllowed\<close> less than \<open>CACHE_TTL_MS\<close> after the cached measurement
  returns the verdict on that measurement and leaves the cache alone, whatever the queries
  would return now; so a call that measures, followed within the window by another call,
  gives the same verdict twice even if the usage has changed. A write through
  \<open>upsertOrgData\<close> that succeeds returns with the row stored and the cache empty, so the
  next check measures again and judges what the queries return then.
\<close>

theorem cache_window_and_invalidation:
  "(ca = Some c \<and> now - checkedAt c < CACHE_TTL_MS \<longrightarrow>
      checkWriteAllowed now db ca = (veredicto c, ca))
 \<and> ((ca = None \<or> (\<exists>c. ca = Some c \<and> \<not> now0 - checkedAt c < CACHE_TTL_MS))
      \<and> size_query db0 = QueryReturns a \<and> count_query db0 = QueryReturns b
      \<and> now1 - now0 < CACHE_TTL_MS \<longrightarrow>
      checkWriteAllowed now1 db1 (snd (checkWriteAllowed now0 db0 ca)) =
        (fst (checkWriteAllowed now0 db0 ca), snd (checkWriteAllowed now0 db0 ca)))
 \<and> (upsertOrgData now db escritura org year tipo data st = (Inr u, st') \<longrightarrow>
      cache st' = None \<and> org_year_data st' (org, year, tipo) = Some data
      \<and> (size_query db2 = QueryReturns a2 \<and> count_query db2 = QueryReturns b2 \<longrightarrow>
           fst (checkWriteAllowed now2 db2 (cache st')) =
             veredicto \<lparr>bytes = or_0 a2, rows = or_0 b2, checkedAt = now2\<rparr>))"
proof (intro conjI impI)
  assume "ca = Some c \<and> now - checkedAt c < CACHE_TTL_MS"
  then show "checkWriteAllowed now db ca = (veredicto c, ca)"
    by (simp add: checkWriteAllowed_hit)
next
  assume h: "(ca = None \<or> (\<exists>c. ca = Some c \<and> \<not> now0 - checkedAt c < CACHE_TTL_MS))
      \<and> size_query db0 = QueryReturns a \<and> count_query db0 = QueryReturns b
      \<and> now1 - now0 < CACHE_TTL_MS"
  let ?m = "\<lparr>bytes = or_0 a, rows = or_0 b, checkedAt = now0\<rparr>"
  from h have first: "checkWriteAllowed now0 db0 ca = (veredicto ?m, Some ?m)"
    by (intro checkWriteAllowed_measures) blast+
  from h have "now1 - checkedAt ?m < CACHE_TTL_MS"
    by simp
  then have "checkWriteAllowed now1 db1 (Some ?m) = (veredicto ?m, Some ?m)"
    by (intro checkWriteAllowed_hit) simp_all
  then show "checkWriteAllowed now1 db1 (snd (checkWriteAllowed now0 db0 ca)) =
        (fst (checkWriteAllowed now0 db0 ca), snd (checkWriteAllowed now0 db0 ca))"
    by (simp add: first)
next
  assume "upsertOrgData now db escritura org year tipo data st = (Inr u, st')"
  then show "cache st' = None"
    by (rule upsertOrgData_success)
next
  assume "upsertOrgData now db escritura org year tipo data st = (Inr u, st')"
  then show "org_year_data st' (org, year, tipo) = Some data"
    by (rule upsertOrgData_success)
next
  assume w: "upsertOrgData now db escritura org year tipo data st = (Inr u, st')"
    and q: "size_query db2 = QueryReturns a2 \<and> count_query db2 = QueryReturns b2"
  from w have "cache st' = None"
    by (rule upsertOrgData_success)
  with q show "fst (checkWriteAllowed now2 db2 (cache st')) =
             veredicto \<lparr>bytes = or_0 a2, rows = or_0 b2, checkedAt = now2\<rparr>"
    by (simp add: checkWriteAllowed_measures [of "None" now2 db2 a2 b2])
qed

theorem cache_window_and_invalidation_witness:
  "fst (checkWriteAllowed 59999 (uso (400 * 1024 * 1024) 10)
          (snd (checkWriteAllowed 0 (uso 100 10) None)))
     = fst (checkWriteAllowed 0 (uso 100 10) None)
   \<and> cache (snd (upsertOrgData 0 (uso 100 10) (QueryReturns ()) ''org_001'' 2024 ''results''
                   ''{}'' almacen_vacio)) = None
   \<and> fst (checkWriteAllowed 1 (uso (400 * 1024 * 1024) 10)
          (cache (snd (upsertOrgData 0 (uso 100 10) (QueryReturns ()) ''org_001'' 2024 ''results''
                   ''{}'' almacen_vacio))))
     = veredicto \<lparr>bytes = 400 * 1024 * 1024, rows = 10, checkedAt = 1\<rparr>"
proof -
  let ?st' = "snd (upsertOrgData 0 (uso 100 10) (QueryReturns ()) ''org_001'' 2024 ''results''
                   ''{}'' almacen_vacio)"
  have ok: "upsertOrgData 0 (uso 100 10) (QueryReturns ()) ''org_001'' 2024 ''results''
                   ''{}'' almacen_vacio = (Inr (), ?st')"
    by (simp add: upsertOrgData_def guardWrite_def checkWriteAllowed_def getDatabaseSize_def
        veredicto_def uso_def or_0_def almacen_vacio_def Let_def HARD_LIMIT_BYTES_def
        WARN_LIMIT_BYTES_def MAX_ROWS_def)
  have q: "size_query (uso b r) = QueryReturns (Some b) \<and> count_query (uso b r) = QueryReturns (Some r)"
    for b r
    by (simp add: uso_def)
  have t: "(59999::int) - 0 < CACHE_TTL_MS"
    by (simp add: CACHE_TTL_MS_def)
  note th = cache_window_and_invalidation
    [where ca = None and ?now0.0 = 0 and ?db0.0 = "uso 100 10" and a = "Some 100" and b = "Some 10"
       and ?now1.0 = 59999 and ?db1.0 = "uso (400 * 1024 * 1024) 10"
       and now = 0 and db = "uso 100 10" and escritura = "QueryReturns ()"
       and org = "''org_001''" and year = 2024 and tipo = "''results''" and data = "''{}''"
       and st = almacen_vacio and st' = ?st'
       and ?db2.0 = "uso (400 * 1024 * 1024) 10" and ?a2.0 = "Some (400 * 1024 * 1024)"
       and ?b2.0 = "Some 10" and ?now2.0 = 1]
  from th q t
  have A: "checkWriteAllowed 59999 (uso (400 * 1024 * 1024) 10)
             (snd (checkWriteAllowed 0 (uso 100 10) None))
           = (fst (checkWriteAllowed 0 (uso 100 10) None), snd (checkWriteAllowed 0 (uso 100 10) None))"
    by blast
  from th q ok
  have B: "cache ?st' = None"
    and C: "fst (checkWriteAllowed 1 (uso (400 * 1024 * 1024) 10) (cache ?st'))
            = veredicto \<lparr>bytes = or_0 (Some (400 * 1024 * 1024)), rows = or_0 (Some 10),
                          checkedAt = 1\<rparr>"
    by blast+
  from A B C show ?thesis
    by (simp only: or_0_def option.case fst_conv simp_thms)
qed

text \<open>
  C10. When the statistics queries are run (no cached measurement, or an expired one) and one
  of them throws, \<open>getDatabaseSize\<close> returns zero bytes and zero rows and leaves the cache
  as it was; \<open>checkWriteAllowed\<close>, which has no failing outcome, then returns
  \<open>allowed = true\<close> with no message.
\<close>

theorem statistics_failure_fails_open:
  assumes "ca = None \<or> (\<exists>c. ca = Some c \<and> \<not> now - checkedAt c < CACHE_TTL_MS)"
    and "size_query db = QueryThrows \<or> count_query db = QueryThrows"
  shows "getDatabaseSize now db ca = (\<lparr>bytes = 0, rows = 0, checkedAt = now\<rparr>, ca)
       \<and> snd (checkWriteAllowed now db ca) = ca
       \<and> allowed (fst (checkWriteAllowed now db ca))
       \<and> warning (fst (checkWriteAllowed now db ca)) = None
       \<and> error (fst (checkWriteAllowed now db ca)) = None
       \<and> dbSizeBytes (fst (checkWriteAllowed now db ca)) = 0
       \<and> rowCount (fst (checkWriteAllowed now db ca)) = 0"
proof -
  have g: "getDatabaseSize now db ca = (\<lparr>bytes = 0, rows = 0, checkedAt = now\<rparr>, ca)"
    using assms by (rule getDatabaseSize_fails)
  then have "checkWriteAllowed now db ca = (veredicto \<lparr>bytes = 0, rows = 0, checkedAt = now\<rparr>, ca)"
    by (simp add: checkWriteAllowed_def)
  with g show ?thesis
    by (simp add: veredicto_def Let_def HARD_LIMIT_BYTES_def WARN_LIMIT_BYTES_def MAX_ROWS_def)
qed

theorem statistics_failure_fails_open_witness:
  "getDatabaseSize 0 uso_falla None = (\<lparr>bytes = 0, rows = 0, checkedAt = 0\<rparr>, None)
   \<and> snd (checkWriteAllowed 0 uso_falla None) = None
   \<and> allowed (fst (checkWriteAllowed 0 uso_falla None))
   \<and> warning (fst (checkWriteAllowed 0 uso_falla None)) = None
   \<and> error (fst (checkWriteAllowed 0 uso_falla None)) = None
   \<and> dbSizeBytes (fst (checkWriteAllowed 0 uso_falla None)) = 0
   \<and> rowCount (fst (checkWriteAllowed 0 uso_falla None)) = 0"
proof -
  have c: "(None :: SizeCache option) = None
      \<or> (\<exists>c. (None :: SizeCache option) = Some c \<and> \<not> 0 - checkedAt c < CACHE_TTL_MS)"
    by simp
  have q: "size_query uso_falla = QueryThrows \<or> count_query uso_falla = QueryThrows"
    by (simp add: uso_falla_def)
  show ?thesis
    by (rule statistics_failure_fails_open [OF c q])
qed

end
